theory Spec2Isabelle
  imports Main "HOL-Library.Word" "HOL-Library.Sublist"
begin

section \<open>Data model (types/index.ts)\<close>

text \<open>
  A JavaScript string is a sequence of UTF-16 code units.  The literals of the source are
  ASCII, so they are written as HOL strings and injected by \<open>js\<close>.
\<close>

type_synonym jsstring = "16 word list"

definition js :: "string \<Rightarrow> jsstring" where
  "js s = map of_char s"

text \<open>
  The values that the fields of a visitor-info object can hold after the response body has
  been parsed from JSON.  Numbers are restricted to integers here; no property below
  depends on the numeric payload.
\<close>

datatype jsval =
    JNull
  | JBool bool
  | JNum int
  | JStr jsstring
  | JArr "jsval list"
  | JObj "(jsstring \<times> jsval) list"

text \<open>JavaScript truthiness, as used by \<open>if (x)\<close> and \<open>x || y\<close>.\<close>

fun truthy :: "jsval \<Rightarrow> bool" where
  "truthy JNull = False"
| "truthy (JBool b) = b"
| "truthy (JNum n) = (n \<noteq> 0)"
| "truthy (JStr s) = (s \<noteq> [])"
| "truthy (JArr xs) = True"
| "truthy (JObj kvs) = True"

datatype msgtype = User | Bot

text \<open>\<open>interface Message\<close>; the timestamp is the reading of the clock, in milliseconds.\<close>

record Message =
  type :: msgtype
  content :: jsstring
  timestamp :: int

text \<open>
  \<open>ChatState.visitorInfo\<close>: an object all of whose fields are optional, so a finite map
  from field names to values.
\<close>

type_synonym VisitorInfo = "jsstring \<rightharpoonup> jsval"

text \<open>\<open>interface ChatState\<close>.\<close>

record ChatState =
  messages :: "Message list"
  currentStep :: jsstring
  visitorInfo :: VisitorInfo
  isLoading :: bool

section \<open>Transport client (visitorService.processMessage)\<close>

text \<open>
  The object that \<open>processMessage\<close> resolves to.  \<open>next_step\<close> and \<open>visitor_info\<close> may be
  missing from the response body; a missing (or null) field is \<open>None\<close>.
\<close>

record Reply =
  response :: jsstring
  nextStep :: "jsstring option"
  reply_visitorInfo :: "VisitorInfo option"

text \<open>A call of \<open>processMessage\<close> either resolves to a reply or rejects.\<close>

datatype outcome = Resolved Reply | Rejected

text \<open>The arguments \<open>(message, currentStep, visitorInfo)\<close> of one call of \<open>processMessage\<close>.\<close>

type_synonym request = "jsstring \<times> jsstring \<times> VisitorInfo"

section \<open>Message-send orchestrator (App.tsx)\<close>

text \<open>
  \<open>INITIAL_STATE\<close> is a module-level constant; its only message carries the time \<open>t0\<close> at
  which the module was loaded.
\<close>

definition welcome_text :: jsstring where
  "welcome_text =
     js ''Welcome to DPL! I am your AI receptionist. Please select your visitor type:''"

definition restart_text :: jsstring where
  "restart_text = js ''Click anywhere to start a new registration.''"

definition apology_text :: jsstring where
  "apology_text = js ''Sorry, I encountered an error. Please try again.''"

definition INITIAL_STATE :: "int \<Rightarrow> ChatState" where
  "INITIAL_STATE t0 =
     \<lparr> messages = [\<lparr> type = Bot, content = welcome_text, timestamp = t0 \<rparr>],
       currentStep = js ''visitor_type'',
       visitorInfo = Map.empty,
       isLoading = False \<rparr>"

text \<open>
  What \<open>handleSend\<close> does to the outside: it hands the state container an updater
  (\<open>setState(prev => ...)\<close>; \<open>setState(INITIAL_STATE)\<close> is the constant updater), it calls
  the transport client, and it logs.
\<close>

datatype effect =
    SetState "ChatState \<Rightarrow> ChatState"
  | ProcessMessage jsstring jsstring VisitorInfo
  | ConsoleError

text \<open>\<open>resetChat\<close>.\<close>

definition resetChat :: "int \<Rightarrow> effect list" where
  "resetChat t0 = [SetState (\<lambda>prev. INITIAL_STATE t0)]"

text \<open>The updater of lines 41-48 (``Add user message'').\<close>

definition add_user_message :: "int \<Rightarrow> jsstring \<Rightarrow> ChatState \<Rightarrow> ChatState" where
  "add_user_message now message prev =
     prev\<lparr> messages := messages prev @ [\<lparr> type = User, content = message, timestamp = now \<rparr>],
           isLoading := True \<rparr>"

text \<open>\<open>visitorInfo?.registration_completed\<close>, read as a condition.\<close>

definition registration_completed :: "VisitorInfo option \<Rightarrow> bool" where
  "registration_completed vi =
     (case vi of
        None \<Rightarrow> False
      | Some r \<Rightarrow> (case r (js ''registration_completed'') of
                     None \<Rightarrow> False
                   | Some v \<Rightarrow> truthy v))"

text \<open>
  \<open>{ ...prev.visitorInfo, ...visitorInfo }\<close>: the fields of the second object are written
  over those of the first; spreading \<open>undefined\<close> adds nothing.
\<close>

definition spread :: "VisitorInfo \<Rightarrow> VisitorInfo option \<Rightarrow> VisitorInfo" where
  "spread v vi = (case vi of None \<Rightarrow> v | Some r \<Rightarrow> v ++ r)"

text \<open>The updater of lines 61-75 (``Add final message and update state'').\<close>

definition add_final_message ::
  "int \<Rightarrow> int \<Rightarrow> jsstring \<Rightarrow> VisitorInfo option \<Rightarrow> ChatState \<Rightarrow> ChatState" where
  "add_final_message now1 now2 resp vi prev =
     prev\<lparr> messages := messages prev @
               [\<lparr> type = Bot, content = resp, timestamp = now1 \<rparr>,
                \<lparr> type = Bot, content = restart_text, timestamp = now2 \<rparr>],
           currentStep := js ''complete'',
           visitorInfo := spread (visitorInfo prev) vi,
           isLoading := False \<rparr>"

text \<open>
  The updater of lines 80-89 (``Normal message flow'').  \<open>nextStep || prev.currentStep\<close>
  takes \<open>nextStep\<close> when it is truthy: present and not the empty string.
\<close>

definition normal_message_flow ::
  "int \<Rightarrow> jsstring \<Rightarrow> jsstring option \<Rightarrow> VisitorInfo option \<Rightarrow> ChatState \<Rightarrow> ChatState" where
  "normal_message_flow now resp ns vi prev =
     prev\<lparr> messages := messages prev @ [\<lparr> type = Bot, content = resp, timestamp = now \<rparr>],
           currentStep := (case ns of
                             None \<Rightarrow> currentStep prev
                           | Some s \<Rightarrow> if s \<noteq> [] then s else currentStep prev),
           visitorInfo := spread (visitorInfo prev) vi,
           isLoading := False \<rparr>"

text \<open>The updater of lines 92-103 (the \<open>catch\<close> block).\<close>

definition error_message :: "int \<Rightarrow> ChatState \<Rightarrow> ChatState" where
  "error_message now prev =
     prev\<lparr> messages := messages prev @
               [\<lparr> type = Bot, content = apology_text, timestamp = now \<rparr>],
           isLoading := False \<rparr>"

text \<open>
  \<open>handleSend\<close> is an async function with one \<open>await\<close>.  \<open>handleSend_start\<close> is the part that
  runs synchronously, up to and including the call of \<open>processMessage\<close>; \<open>state\<close> is the
  state that the closure captured.  \<open>handleSend_resume\<close> is the part that runs when the
  call has settled.  The effects are listed in program order.
\<close>

definition handleSend_start :: "int \<Rightarrow> int \<Rightarrow> ChatState \<Rightarrow> jsstring \<Rightarrow> effect list" where
  "handleSend_start t0 now state message =
     (if currentStep state = js ''complete'' \<and> \<not> isLoading state
      then resetChat t0
      else [SetState (add_user_message now message),
            ProcessMessage message (currentStep state) (visitorInfo state)])"

definition handleSend_resume :: "int \<Rightarrow> int \<Rightarrow> outcome \<Rightarrow> effect list" where
  "handleSend_resume now1 now2 out =
     (case out of
        Resolved r \<Rightarrow>
          if registration_completed (reply_visitorInfo r)
          then [SetState (add_final_message now1 now2 (response r) (reply_visitorInfo r))]
          else [SetState (normal_message_flow now1 (response r) (nextStep r)
                            (reply_visitorInfo r))]
      | Rejected \<Rightarrow> [ConsoleError, SetState (error_message now1)])"

text \<open>The state container applies the updaters in the order in which they were handed over.\<close>

fun run_effects :: "effect list \<Rightarrow> ChatState \<Rightarrow> ChatState" where
  "run_effects [] s = s"
| "run_effects (SetState f # es) s = run_effects es (f s)"
| "run_effects (e # es) s = run_effects es s"

text \<open>The calls of the transport client among the effects.\<close>

fun transport_calls :: "effect list \<Rightarrow> request list" where
  "transport_calls [] = []"
| "transport_calls (ProcessMessage m c v # es) = (m, c, v) # transport_calls es"
| "transport_calls (e # es) = transport_calls es"

text \<open>
  One whole turn with nothing else happening in between: the synchronous part, the
  backend's answer to each call, and the continuation.  \<open>backend\<close> stands for the remote
  service; \<open>now\<close>, \<open>now1\<close> and \<open>now2\<close> are the readings of the clock.
\<close>

definition turn ::
  "int \<Rightarrow> int \<Rightarrow> int \<Rightarrow> int \<Rightarrow> (request \<Rightarrow> outcome) \<Rightarrow> ChatState \<Rightarrow> jsstring \<Rightarrow> ChatState" where
  "turn t0 now now1 now2 backend state message =
     (let es = handleSend_start t0 now state message;
          s1 = run_effects es state
      in foldl (\<lambda>s req. run_effects (handleSend_resume now1 now2 (backend req)) s)
           s1 (transport_calls es))"

section \<open>Input control (ChatInput.tsx)\<close>

text \<open>
  \<open>String.prototype.trim\<close> removes white space and line terminators from both ends:
  TAB, LF, VT, FF, CR, SP, NBSP, the other space separators of Unicode, LS, PS and the
  byte-order mark.
\<close>

definition isWhiteSpace :: "16 word \<Rightarrow> bool" where
  "isWhiteSpace c =
     (c = 0x0009 \<or> c = 0x000A \<or> c = 0x000B \<or> c = 0x000C \<or> c = 0x000D \<or> c = 0x0020 \<or>
      c = 0x00A0 \<or> c = 0x1680 \<or> (0x2000 \<le> c \<and> c \<le> 0x200A) \<or> c = 0x2028 \<or>
      c = 0x2029 \<or> c = 0x202F \<or> c = 0x205F \<or> c = 0x3000 \<or> c = 0xFEFF)"

definition trim :: "jsstring \<Rightarrow> jsstring" where
  "trim s = rev (dropWhile isWhiteSpace (rev (dropWhile isWhiteSpace s)))"

text \<open>
  The boolean attributes that a parent passes to \<open>ChatInput\<close>, by name.  The component
  destructures \<open>{ onSend, disabled = false }\<close>: it reads \<open>disabled\<close> only, and takes
  \<open>false\<close> when the attribute is not passed.
\<close>

type_synonym attrs = "(string \<times> bool) list"

definition ChatInput_disabled :: "attrs \<Rightarrow> bool" where
  "ChatInput_disabled props =
     (case map_of props ''disabled'' of None \<Rightarrow> False | Some b \<Rightarrow> b)"

text \<open>
  \<open>handleSubmit\<close>: the arguments with which \<open>onSend\<close> is invoked, in order, and the new
  content of the buffer.
\<close>

definition handleSubmit :: "bool \<Rightarrow> jsstring \<Rightarrow> jsstring list \<times> jsstring" where
  "handleSubmit disabled message =
     (if trim message \<noteq> [] \<and> \<not> disabled
      then ([trim message], [])
      else ([], message))"







section \<open>Wiring (ChatContainer)\<close>

text \<open>
  \<open>components/ChatContainer.tsx\<close>, line 69, renders
  \<open><ChatInput onSend={onSend} isLoading={isLoading} />\<close>.
\<close>

definition ChatContainer_input_props :: "bool \<Rightarrow> attrs" where
  "ChatContainer_input_props loading = [(''isLoading'', loading)]"

text \<open>
  The other \<open>ChatContainer\<close> of the repository renders
  \<open><ChatInput onSend={onSend} disabled={isLoading} />\<close>.
\<close>

definition ChatContainer_alt_input_props :: "bool \<Rightarrow> attrs" where
  "ChatContainer_alt_input_props loading = [(''disabled'', loading)]"

text \<open>
  Submitting the input control inside \<open>App\<close>: \<open>App\<close> passes \<open>state.isLoading\<close> and
  \<open>handleSend\<close> to the container, the container passes its attributes to \<open>ChatInput\<close>, and
  every invocation of \<open>onSend\<close> runs the synchronous part of \<open>handleSend\<close>.
\<close>

definition submit_input ::
  "(bool \<Rightarrow> attrs) \<Rightarrow> int \<Rightarrow> int \<Rightarrow> ChatState \<Rightarrow> jsstring \<Rightarrow> effect list" where
  "submit_input container t0 now state buffer =
     concat (map (handleSend_start t0 now state)
       (fst (handleSubmit (ChatInput_disabled (container (isLoading state))) buffer)))"

section \<open>Basic facts\<close>



lemma run_resume_Resolved:
  "run_effects (handleSend_resume now1 now2 (Resolved r)) prev =
     (if registration_completed (reply_visitorInfo r)
      then add_final_message now1 now2 (response r) (reply_visitorInfo r) prev
      else normal_message_flow now1 (response r) (nextStep r) (reply_visitorInfo r) prev)"
  by (simp add: handleSend_resume_def)

lemma run_resume_Rejected:
  "run_effects (handleSend_resume now1 now2 Rejected) prev = error_message now1 prev"
  by (simp add: handleSend_resume_def)

lemma turn_non_terminal:
  assumes "\<not> (currentStep state = js ''complete'' \<and> \<not> isLoading state)"
  shows "turn t0 now now1 now2 backend state m =
           run_effects
             (handleSend_resume now1 now2 (backend (m, currentStep state, visitorInfo state)))
             (add_user_message now m state)"
  using assms by (auto simp add: turn_def handleSend_start_def)

section \<open>The terminal reset\<close>

text \<open>
  C3.  In a state with \<open>currentStep = "complete"\<close> and \<open>isLoading = false\<close>, \<open>handleSend\<close>
  with any payload hands over the initial state and nothing else: there is no call of the
  transport client, the payload does not occur in the result, and the state after the
  turn is \<open>INITIAL_STATE\<close>: the one welcome message of the bot, step \<open>"visitor_type"\<close>, no
  visitor information, not loading.
\<close>

theorem terminal_reset:
  assumes "currentStep state = js ''complete''" and "\<not> isLoading state"
  shows "handleSend_start t0 now state m = [SetState (\<lambda>prev. INITIAL_STATE t0)]
       \<and> transport_calls (handleSend_start t0 now state m) = []
       \<and> run_effects (handleSend_start t0 now state m) prev = INITIAL_STATE t0
       \<and> turn t0 now now1 now2 backend state m = INITIAL_STATE t0
       \<and> messages (INITIAL_STATE t0) =
           [\<lparr> type = Bot, content = welcome_text, timestamp = t0 \<rparr>]
       \<and> currentStep (INITIAL_STATE t0) = js ''visitor_type''
       \<and> visitorInfo (INITIAL_STATE t0) = Map.empty
       \<and> isLoading (INITIAL_STATE t0) = False"
  using assms
  by (simp add: handleSend_start_def resetChat_def turn_def INITIAL_STATE_def)

theorem terminal_reset_witness:
  "currentStep \<lparr> messages = [], currentStep = js ''complete'', visitorInfo = Map.empty,
                  isLoading = False \<rparr> = js ''complete''
   \<and> \<not> isLoading \<lparr> messages = [], currentStep = js ''complete'', visitorInfo = Map.empty,
                  isLoading = False \<rparr>
   \<and> transport_calls (handleSend_start 0 1 \<lparr> messages = [], currentStep = js ''complete'',
         visitorInfo = Map.empty, isLoading = False \<rparr> []) = []
   \<and> turn 0 1 2 3 (\<lambda>req. Rejected) \<lparr> messages = [], currentStep = js ''complete'',
         visitorInfo = Map.empty, isLoading = False \<rparr> [] = INITIAL_STATE 0"
  using terminal_reset [of "\<lparr> messages = [], currentStep = js ''complete'',
         visitorInfo = Map.empty, isLoading = False \<rparr>" 0 1 "[]" _ 2 3 "\<lambda>req. Rejected"]
  by simp

section \<open>The optimistic append\<close>




section \<open>Failure of the transport call\<close>

text \<open>
  C2.  When the call of the transport client rejects, the turn leaves the state it started
  from with two more messages, the user message of the optimistic append and after it
  one bot message with the apology text, and with \<open>isLoading = false\<close>; \<open>currentStep\<close> and
  \<open>visitorInfo\<close> are the ones from before the turn.  The updater of the \<open>catch\<close> block
  itself touches the transcript and the loading flag only.
\<close>

theorem failure_absorption:
  assumes "\<not> (currentStep state = js ''complete'' \<and> \<not> isLoading state)"
    and "backend (m, currentStep state, visitorInfo state) = Rejected"
  shows "turn t0 now now1 now2 backend state m =
           state\<lparr> messages := messages state @
                    [\<lparr> type = User, content = m, timestamp = now \<rparr>,
                     \<lparr> type = Bot, content = apology_text, timestamp = now1 \<rparr>],
                  isLoading := False \<rparr>
       \<and> currentStep (turn t0 now now1 now2 backend state m) = currentStep state
       \<and> visitorInfo (turn t0 now now1 now2 backend state m) = visitorInfo state
       \<and> isLoading (turn t0 now now1 now2 backend state m) = False
       \<and> run_effects (handleSend_resume now1 now2 Rejected) prev =
           prev\<lparr> messages := messages prev @
                    [\<lparr> type = Bot, content = apology_text, timestamp = now1 \<rparr>],
                 isLoading := False \<rparr>"
  using assms
  by (simp add: turn_non_terminal run_resume_Rejected add_user_message_def error_message_def)

theorem failure_absorption_witness:
  "\<not> (currentStep (INITIAL_STATE 0) = js ''complete'' \<and> \<not> isLoading (INITIAL_STATE 0))
   \<and> (\<lambda>req. Rejected) (js ''guest'', currentStep (INITIAL_STATE 0),
         visitorInfo (INITIAL_STATE 0)) = Rejected
   \<and> turn 0 5 7 8 (\<lambda>req. Rejected) (INITIAL_STATE 0) (js ''guest'') =
       \<lparr> messages = [\<lparr> type = Bot, content = welcome_text, timestamp = 0 \<rparr>,
                     \<lparr> type = User, content = js ''guest'', timestamp = 5 \<rparr>,
                     \<lparr> type = Bot, content = apology_text, timestamp = 7 \<rparr>],
         currentStep = js ''visitor_type'',
         visitorInfo = Map.empty,
         isLoading = False \<rparr>"
proof -
  have h: "\<not> (currentStep (INITIAL_STATE 0) = js ''complete'' \<and> \<not> isLoading (INITIAL_STATE 0))"
    by (simp add: INITIAL_STATE_def js_def)
  show ?thesis
    using h failure_absorption [OF h, of "\<lambda>req. Rejected" "js ''guest''" 0 5 7 8]
    by (simp add: INITIAL_STATE_def)
qed

section \<open>Successful turns\<close>

text \<open>
  C4.  When the call resolves to a reply whose \<open>visitor_info\<close> has
  \<open>registration_completed = true\<close>, the continuation appends exactly two bot messages, the
  response text and then the restart prompt, sets \<open>currentStep\<close> to \<open>"complete"\<close> whatever
  \<open>next_step\<close> the reply carries, and clears \<open>isLoading\<close>.
\<close>

theorem terminal_two_message_transition:
  assumes "reply_visitorInfo r = Some vi"
    and "vi (js ''registration_completed'') = Some (JBool True)"
  shows "messages (run_effects (handleSend_resume now1 now2 (Resolved r)) prev) =
           messages prev @ [\<lparr> type = Bot, content = response r, timestamp = now1 \<rparr>,
                            \<lparr> type = Bot, content = restart_text, timestamp = now2 \<rparr>]
       \<and> currentStep (run_effects (handleSend_resume now1 now2 (Resolved r)) prev) = js ''complete''
       \<and> isLoading (run_effects (handleSend_resume now1 now2 (Resolved r)) prev) = False"
  using assms
  by (simp add: run_resume_Resolved registration_completed_def add_final_message_def)

theorem terminal_two_message_transition_witness:
  "reply_visitorInfo \<lparr> response = js ''Done.'', nextStep = Some (js ''host''),
       reply_visitorInfo = Some [js ''registration_completed'' \<mapsto> JBool True] \<rparr> =
     Some [js ''registration_completed'' \<mapsto> JBool True]
   \<and> [js ''registration_completed'' \<mapsto> JBool True] (js ''registration_completed'') =
       Some (JBool True)
   \<and> messages (run_effects (handleSend_resume 7 8 (Resolved
        \<lparr> response = js ''Done.'', nextStep = Some (js ''host''),
          reply_visitorInfo = Some [js ''registration_completed'' \<mapsto> JBool True] \<rparr>))
        (add_user_message 5 (js ''yes'') (INITIAL_STATE 0))) =
       [\<lparr> type = Bot, content = welcome_text, timestamp = 0 \<rparr>,
        \<lparr> type = User, content = js ''yes'', timestamp = 5 \<rparr>,
        \<lparr> type = Bot, content = js ''Done.'', timestamp = 7 \<rparr>,
        \<lparr> type = Bot, content = restart_text, timestamp = 8 \<rparr>]
   \<and> currentStep (run_effects (handleSend_resume 7 8 (Resolved
        \<lparr> response = js ''Done.'', nextStep = Some (js ''host''),
          reply_visitorInfo = Some [js ''registration_completed'' \<mapsto> JBool True] \<rparr>))
        (add_user_message 5 (js ''yes'') (INITIAL_STATE 0))) = js ''complete''"
  using terminal_two_message_transition [of
      "\<lparr> response = js ''Done.'', nextStep = Some (js ''host''),
         reply_visitorInfo = Some [js ''registration_completed'' \<mapsto> JBool True] \<rparr>"
      "[js ''registration_completed'' \<mapsto> JBool True]" 7 8
      "add_user_message 5 (js ''yes'') (INITIAL_STATE 0)"]
  by (simp add: add_user_message_def INITIAL_STATE_def)

text \<open>
  C5.  When the reply carries a \<open>visitor_info\<close> object \<open>r\<close>, the new \<open>visitorInfo\<close> is the
  old one with the fields of \<open>r\<close> written over it, in the terminal branch as in the normal
  one: a field of \<open>r\<close> has the value from \<open>r\<close>, every other field keeps its old value, and
  no field of the old object disappears.
\<close>

theorem visitorInfo_shallow_merge:
  assumes "reply_visitorInfo rep = Some r"
  shows "visitorInfo (run_effects (handleSend_resume now1 now2 (Resolved rep)) prev) =
           visitorInfo prev ++ r
       \<and> (\<forall>k. k \<in> dom r \<longrightarrow>
             visitorInfo (run_effects (handleSend_resume now1 now2 (Resolved rep)) prev) k = r k)
       \<and> (\<forall>k. k \<notin> dom r \<longrightarrow>
             visitorInfo (run_effects (handleSend_resume now1 now2 (Resolved rep)) prev) k =
               visitorInfo prev k)
       \<and> dom (visitorInfo prev) \<subseteq>
           dom (visitorInfo (run_effects (handleSend_resume now1 now2 (Resolved rep)) prev))"
  using assms
  by (auto simp add: run_resume_Resolved add_final_message_def normal_message_flow_def
        spread_def map_add_dom_app_simps)

theorem visitorInfo_shallow_merge_witness:
  "reply_visitorInfo \<lparr> response = js ''ok'', nextStep = None,
       reply_visitorInfo = Some [js ''phone'' \<mapsto> JStr (js ''123'')] \<rparr> =
     Some [js ''phone'' \<mapsto> JStr (js ''123'')]
   \<and> visitorInfo (run_effects (handleSend_resume 7 8 (Resolved
        \<lparr> response = js ''ok'', nextStep = None,
          reply_visitorInfo = Some [js ''phone'' \<mapsto> JStr (js ''123'')] \<rparr>))
        \<lparr> messages = [], currentStep = js ''phone'',
          visitorInfo = [js ''full_name'' \<mapsto> JStr (js ''A'')], isLoading = True \<rparr>) =
       [js ''full_name'' \<mapsto> JStr (js ''A''), js ''phone'' \<mapsto> JStr (js ''123'')]
   \<and> js ''phone'' \<in> dom [js ''phone'' \<mapsto> JStr (js ''123'')]
   \<and> js ''full_name'' \<notin> dom [js ''phone'' \<mapsto> JStr (js ''123'')]
   \<and> visitorInfo (run_effects (handleSend_resume 7 8 (Resolved
        \<lparr> response = js ''ok'', nextStep = None,
          reply_visitorInfo = Some [js ''phone'' \<mapsto> JStr (js ''123'')] \<rparr>))
        \<lparr> messages = [], currentStep = js ''phone'',
          visitorInfo = [js ''full_name'' \<mapsto> JStr (js ''A'')], isLoading = True \<rparr>)
        (js ''full_name'') = Some (JStr (js ''A''))"
  using visitorInfo_shallow_merge [of
      "\<lparr> response = js ''ok'', nextStep = None,
         reply_visitorInfo = Some [js ''phone'' \<mapsto> JStr (js ''123'')] \<rparr>"
      "[js ''phone'' \<mapsto> JStr (js ''123'')]" 7 8
      "\<lparr> messages = [], currentStep = js ''phone'',
         visitorInfo = [js ''full_name'' \<mapsto> JStr (js ''A'')], isLoading = True \<rparr>"]
  by (simp add: js_def)

text \<open>
  C10.  When the reply has no \<open>visitor_info\<close> at all, the turn leaves \<open>visitorInfo\<close> as it
  was.
\<close>

theorem absent_visitorInfo_identity:
  assumes "reply_visitorInfo rep = None"
  shows "visitorInfo (run_effects (handleSend_resume now1 now2 (Resolved rep)) prev) =
           visitorInfo prev"
  using assms
  by (simp add: run_resume_Resolved registration_completed_def normal_message_flow_def spread_def)

theorem absent_visitorInfo_identity_witness:
  "reply_visitorInfo \<lparr> response = js ''ok'', nextStep = Some (js ''phone''),
       reply_visitorInfo = None \<rparr> = None
   \<and> visitorInfo (run_effects (handleSend_resume 7 8 (Resolved
        \<lparr> response = js ''ok'', nextStep = Some (js ''phone''), reply_visitorInfo = None \<rparr>))
        \<lparr> messages = [], currentStep = js ''full_name'',
          visitorInfo = [js ''full_name'' \<mapsto> JStr (js ''A'')], isLoading = True \<rparr>) =
       [js ''full_name'' \<mapsto> JStr (js ''A'')]"
  using absent_visitorInfo_identity [of
      "\<lparr> response = js ''ok'', nextStep = Some (js ''phone''), reply_visitorInfo = None \<rparr>"
      7 8
      "\<lparr> messages = [], currentStep = js ''full_name'',
         visitorInfo = [js ''full_name'' \<mapsto> JStr (js ''A'')], isLoading = True \<rparr>"]
  by simp

text \<open>
  C7, as the code has it.  When the call resolves to a reply without a truthy
  \<open>registration_completed\<close>, the continuation appends exactly one bot message with the
  response text and clears \<open>isLoading\<close>; \<open>currentStep\<close> becomes the returned \<open>next_step\<close>
  when that is present and not the empty string, and stays as it was when the reply has
  no \<open>next_step\<close> or an empty one.
\<close>

theorem normal_flow:
  assumes "\<not> registration_completed (reply_visitorInfo r)"
  shows "messages (run_effects (handleSend_resume now1 now2 (Resolved r)) prev) =
           messages prev @ [\<lparr> type = Bot, content = response r, timestamp = now1 \<rparr>]
       \<and> isLoading (run_effects (handleSend_resume now1 now2 (Resolved r)) prev) = False
       \<and> (\<forall>t. nextStep r = Some t \<and> t \<noteq> [] \<longrightarrow>
             currentStep (run_effects (handleSend_resume now1 now2 (Resolved r)) prev) = t)
       \<and> (nextStep r = None \<or> nextStep r = Some [] \<longrightarrow>
             currentStep (run_effects (handleSend_resume now1 now2 (Resolved r)) prev) =
               currentStep prev)"
  using assms
  by (auto simp add: run_resume_Resolved normal_message_flow_def)

theorem normal_flow_witness:
  "\<not> registration_completed (reply_visitorInfo
        \<lparr> response = js ''Name?'', nextStep = Some (js ''full_name''),
          reply_visitorInfo = Some [js ''type'' \<mapsto> JStr (js ''guest'')] \<rparr>)
   \<and> messages (run_effects (handleSend_resume 7 8 (Resolved
        \<lparr> response = js ''Name?'', nextStep = Some (js ''full_name''),
          reply_visitorInfo = Some [js ''type'' \<mapsto> JStr (js ''guest'')] \<rparr>))
        (add_user_message 5 (js ''guest'') (INITIAL_STATE 0))) =
       [\<lparr> type = Bot, content = welcome_text, timestamp = 0 \<rparr>,
        \<lparr> type = User, content = js ''guest'', timestamp = 5 \<rparr>,
        \<lparr> type = Bot, content = js ''Name?'', timestamp = 7 \<rparr>]
   \<and> js ''full_name'' \<noteq> []
   \<and> currentStep (run_effects (handleSend_resume 7 8 (Resolved
        \<lparr> response = js ''Name?'', nextStep = Some (js ''full_name''),
          reply_visitorInfo = Some [js ''type'' \<mapsto> JStr (js ''guest'')] \<rparr>))
        (add_user_message 5 (js ''guest'') (INITIAL_STATE 0))) = js ''full_name''
   \<and> \<not> registration_completed (reply_visitorInfo
        \<lparr> response = js ''Again?'', nextStep = None, reply_visitorInfo = None \<rparr>)
   \<and> currentStep (run_effects (handleSend_resume 7 8 (Resolved
        \<lparr> response = js ''Again?'', nextStep = None, reply_visitorInfo = None \<rparr>))
        (add_user_message 5 (js ''guest'') (INITIAL_STATE 0))) = js ''visitor_type''"
proof -
  have h: "\<not> registration_completed (reply_visitorInfo
        \<lparr> response = js ''Name?'', nextStep = Some (js ''full_name''),
          reply_visitorInfo = Some [js ''type'' \<mapsto> JStr (js ''guest'')] \<rparr>)"
    by (simp add: registration_completed_def js_def)
  have g: "\<not> registration_completed (reply_visitorInfo
        \<lparr> response = js ''Again?'', nextStep = None, reply_visitorInfo = None \<rparr>)"
    by (simp add: registration_completed_def)
  have n: "js ''full_name'' \<noteq> []"
    by (simp add: js_def)
  have c: "currentStep (add_user_message 5 (js ''guest'') (INITIAL_STATE 0)) = js ''visitor_type''"
    by (simp add: add_user_message_def INITIAL_STATE_def)
  have m: "messages (add_user_message 5 (js ''guest'') (INITIAL_STATE 0)) =
             [\<lparr> type = Bot, content = welcome_text, timestamp = 0 \<rparr>,
              \<lparr> type = User, content = js ''guest'', timestamp = 5 \<rparr>]"
    by (simp add: add_user_message_def INITIAL_STATE_def)
  show ?thesis
    using h g n c m
      normal_flow [OF h, of 7 8 "add_user_message 5 (js ''guest'') (INITIAL_STATE 0)"]
      normal_flow [OF g, of 7 8 "add_user_message 5 (js ''guest'') (INITIAL_STATE 0)"]
    by simp
qed

text \<open>
  C7 as stated fails: a reply whose \<open>next_step\<close> is present and is the empty string
  leaves \<open>currentStep\<close> at \<open>"visitor_type"\<close>, not at the returned token.
\<close>

theorem normal_flow_empty_next_step_counterexample:
  "\<not> registration_completed (reply_visitorInfo
        \<lparr> response = js ''ok'', nextStep = Some [], reply_visitorInfo = None \<rparr>)
   \<and> nextStep \<lparr> response = js ''ok'', nextStep = Some [], reply_visitorInfo = None \<rparr> = Some []
   \<and> currentStep (run_effects (handleSend_resume 7 8 (Resolved
        \<lparr> response = js ''ok'', nextStep = Some [], reply_visitorInfo = None \<rparr>))
        (add_user_message 5 (js ''guest'') (INITIAL_STATE 0))) = js ''visitor_type''
   \<and> js ''visitor_type'' \<noteq> []"
  by (simp add: run_resume_Resolved registration_completed_def normal_message_flow_def
        add_user_message_def INITIAL_STATE_def js_def)

section \<open>The transcript\<close>

text \<open>
  C8.  Every updater that \<open>handleSend\<close> hands over, other than the reset, extends the
  transcript at its end: the optimistic append, the two updaters of a resolved call and
  the updater of a rejected call each leave the previous messages, unchanged and in
  order, as a prefix of the new transcript.
\<close>

theorem transcript_append_only:
  assumes "SetState f \<in> set (handleSend_start t0 now state m) \<union>
                         set (handleSend_resume now1 now2 out)"
    and "\<not> (currentStep state = js ''complete'' \<and> \<not> isLoading state)"
  shows "prefix (messages prev) (messages (f prev))
       \<and> take (length (messages prev)) (messages (f prev)) = messages prev"
  using assms
  by (auto simp add: handleSend_start_def handleSend_resume_def add_user_message_def
        add_final_message_def normal_message_flow_def error_message_def
        split: outcome.splits if_splits)

theorem transcript_append_only_witness:
  "SetState (error_message 7) \<in> set (handleSend_start 0 5 (INITIAL_STATE 0) (js ''guest'')) \<union>
                                  set (handleSend_resume 7 8 Rejected)
   \<and> \<not> (currentStep (INITIAL_STATE 0) = js ''complete'' \<and> \<not> isLoading (INITIAL_STATE 0))
   \<and> prefix (messages (add_user_message 5 (js ''guest'') (INITIAL_STATE 0)))
        (messages (error_message 7 (add_user_message 5 (js ''guest'') (INITIAL_STATE 0))))"
proof -
  have h1: "SetState (error_message 7) \<in>
              set (handleSend_start 0 5 (INITIAL_STATE 0) (js ''guest'')) \<union>
              set (handleSend_resume 7 8 Rejected)"
    by (simp add: handleSend_resume_def)
  have h2: "\<not> (currentStep (INITIAL_STATE 0) = js ''complete'' \<and> \<not> isLoading (INITIAL_STATE 0))"
    by (simp add: INITIAL_STATE_def js_def)
  show ?thesis
    using h1 h2 transcript_append_only [OF h1 h2,
        of "add_user_message 5 (js ''guest'') (INITIAL_STATE 0)"]
    by simp
qed

section \<open>The input control\<close>







section \<open>One call in flight\<close>

text \<open>
  With the attribute that the other container passes, the input control is disabled while
  \<open>isLoading\<close> holds, and a submission reaches neither \<open>handleSend\<close> nor the transport client.
\<close>

lemma submit_input_alt_blocked:
  "isLoading state \<Longrightarrow> submit_input ChatContainer_alt_input_props t0 now state b = []"
  by (simp add: submit_input_def handleSubmit_def ChatInput_disabled_def
        ChatContainer_alt_input_props_def)

text \<open>
  C1 does not hold of \<open>components/ChatContainer.tsx\<close>.  That container passes the flag
  under the name \<open>isLoading\<close>, which \<open>ChatInput\<close> does not read, so the control is not
  disabled.  In the state after the visitor has sent \<open>guest\<close> and before the answer has
  arrived, submitting \<open>hello\<close> calls the transport client a second time.
\<close>

theorem second_send_while_loading_calls_transport:
  "isLoading (add_user_message 5 (js ''guest'') (INITIAL_STATE 0)) = True
   \<and> ChatInput_disabled (ChatContainer_input_props True) = False
   \<and> transport_calls (submit_input ChatContainer_input_props 0 6
        (add_user_message 5 (js ''guest'') (INITIAL_STATE 0)) (js ''hello'')) =
       [(js ''hello'', js ''visitor_type'', Map.empty)]"
  by (simp add: submit_input_def handleSubmit_def ChatInput_disabled_def
        ChatContainer_input_props_def handleSend_start_def add_user_message_def
        INITIAL_STATE_def trim_def js_def isWhiteSpace_def)

end
